theory Spec2Isabelle
  imports Main "HOL-Library.Word" "HOL-Library.AList"
begin

section \<open>Exceptions and text helpers\<close>

text \<open>
  Every exception the modelled Python can raise is a value of \<open>error\<close>; a function that
  may raise returns \<open>error + 'a\<close> with \<open>Inl\<close> for the raised exception. \<open>Raised\<close> stands
  for whatever an external collaborator (parser, compiler, template engine) raises.
\<close>

datatype error =
    ValueError string
  | KeyError string
  | TypeError string
  | AttributeError string
  | StopIteration
  | UserWarning string
  | DuplicateFieldNumberError
  | Raised string





section \<open>standard_enum.py: StandardEnum\<close>

text \<open>
  An enum class is its name and its body: the \<open>NAME = value\<close> lines in declaration order.
  A member is a (name, value) pair. As in \<open>enum.IntEnum\<close>, the first name declared with a
  value is the member for that value and a later name with the same value is an alias of it.
\<close>

record member =
  member_name :: string
  member_value :: int

record enum_cls =
  cls_name :: string
  declared :: "(string \<times> int) list"

text \<open>The value table of the class (\<open>_value2member_map_\<close>): the first declaration wins.\<close>

fun lookup_value :: "(string \<times> int) list \<Rightarrow> int \<Rightarrow> member option" where
  "lookup_value [] v = None"
| "lookup_value ((n, x) # ds) v =
     (if x = v then Some \<lparr>member_name = n, member_value = x\<rparr> else lookup_value ds v)"

text \<open>\<open>cls.__members__\<close>: every declared name, in order, with the member it denotes.\<close>

definition members :: "enum_cls \<Rightarrow> (string \<times> member) list" where
  "members E =
     List.map_filter (\<lambda>(n, v). map_option (Pair n) (lookup_value (declared E) v)) (declared E)"


text \<open>\<open>cls[name]\<close>: the member a declared name denotes, or \<open>KeyError\<close>.\<close>

definition enum_getitem :: "enum_cls \<Rightarrow> string \<Rightarrow> error + member" where
  "enum_getitem E s =
     (case map_of (members E) s of
        None \<Rightarrow> Inl (KeyError s)
      | Some m \<Rightarrow> Inr m)"







text \<open>\<open>StandardEnum.from_string\<close>: \<open>KeyError\<close> is caught and re-raised as \<open>ValueError\<close>.\<close>

definition from_string :: "enum_cls \<Rightarrow> string \<Rightarrow> error + member" where
  "from_string E s =
     (case enum_getitem E s of
        Inr m \<Rightarrow> Inr m
      | Inl (KeyError k) \<Rightarrow> Inl (ValueError (''Unknown value '' @ s @ '' for enum '' @ cls_name E))
      | Inl e \<Rightarrow> Inl e)"

section \<open>standard_message.py: values, StandardMessage and the field helpers\<close>

text \<open>
  The Python values that reach \<open>to_dict\<close> and \<open>from_dict\<close>. A float is its 64 bits, no
  arithmetic is done on it. A dict is its items in insertion order, with string keys (JSON
  objects, keyword arguments). A datetime or timedelta is a count of microseconds; how it
  prints is left to the library functions of \<open>pylib\<close>. \<open>PMsg c fs\<close> is an instance of the
  message class named c, with the values of its dataclass fields in field order.
\<close>

type_synonym datetime = int
type_synonym timedelta = int

datatype pyval =
    PNone
  | PBool bool
  | PInt int
  | PFloat "64 word"
  | PStr string
  | PList "pyval list"
  | PDict "(string \<times> pyval) list"
  | PDatetime datetime
  | PTimedelta timedelta
  | PMsg string "(string \<times> pyval) list"










subsection \<open>The json module and equality of values\<close>

text \<open>
  A float is NaN when its exponent bits are all set and its fraction is not zero.
\<close>

definition is_nan :: "64 word \<Rightarrow> bool" where
  "is_nan x \<longleftrightarrow> take_bit 11 (drop_bit 52 x) = 2047 \<and> take_bit 52 x \<noteq> 0"


text \<open>
  A JSON text is represented by the document it denotes; a string that is no JSON text is
  \<open>Malformed\<close>. Numbers keep apart integer and float literals, as the Python reader does,
  and a float literal stands for the float it reads back as. \<open>NaN\<close> is a literal of its
  own: every NaN is written as \<open>NaN\<close> and read back as \<open>float("nan")\<close>.
\<close>

datatype json =
    JNull
  | JBool bool
  | JInt int
  | JFloat "64 word"
  | JNaN
  | JStr string
  | JArr "json list"
  | JObj "(string \<times> json) list"


text \<open>
  \<open>json.dumps\<close> with its default arguments: \<open>None\<close>, booleans, integers, floats,
  strings, lists and dicts are written; any other object is a \<open>TypeError\<close>.
\<close>

fun dumps_value :: "pyval \<Rightarrow> error + json"
  and dumps_list :: "pyval list \<Rightarrow> error + json list"
  and dumps_items :: "(string \<times> pyval) list \<Rightarrow> error + (string \<times> json) list"
where
  "dumps_value PNone = Inr JNull"
| "dumps_value (PBool b) = Inr (JBool b)"
| "dumps_value (PInt i) = Inr (JInt i)"
| "dumps_value (PFloat x) = Inr (if is_nan x then JNaN else JFloat x)"
| "dumps_value (PStr s) = Inr (JStr s)"
| "dumps_value (PList xs) =
     (case dumps_list xs of Inl e \<Rightarrow> Inl e | Inr js \<Rightarrow> Inr (JArr js))"
| "dumps_value (PDict kvs) =
     (case dumps_items kvs of Inl e \<Rightarrow> Inl e | Inr items \<Rightarrow> Inr (JObj items))"
| "dumps_value (PDatetime d) =
     Inl (TypeError ''Object of type datetime is not JSON serializable'')"
| "dumps_value (PTimedelta t) =
     Inl (TypeError ''Object of type timedelta is not JSON serializable'')"
| "dumps_value (PMsg c fs) =
     Inl (TypeError (''Object of type '' @ c @ '' is not JSON serializable''))"
| "dumps_list [] = Inr []"
| "dumps_list (x # xs) =
     (case dumps_value x of
        Inl e \<Rightarrow> Inl e
      | Inr j \<Rightarrow> (case dumps_list xs of Inl e \<Rightarrow> Inl e | Inr js \<Rightarrow> Inr (j # js)))"
| "dumps_items [] = Inr []"
| "dumps_items ((k, v) # kvs) =
     (case dumps_value v of
        Inl e \<Rightarrow> Inl e
      | Inr j \<Rightarrow>
          (case dumps_items kvs of Inl e \<Rightarrow> Inl e | Inr items \<Rightarrow> Inr ((k, j) # items)))"





text \<open>
  Python's \<open>==\<close> on values held in different objects. Floats compare as IEEE 754 says:
  a NaN equals nothing, itself included, and the two zeros are equal. Booleans, integers
  and floats compare by their numeric value. Lists compare element by element, dicts key by
  key, and two messages are equal when they are of the same class and their field values
  are equal in order, which is the \<open>__eq__\<close> that \<open>@dataclass\<close> generates.
\<close>

definition float_eq :: "64 word \<Rightarrow> 64 word \<Rightarrow> bool" where
  "float_eq x y \<longleftrightarrow>
     \<not> is_nan x \<and> \<not> is_nan y \<and> (x = y \<or> (take_bit 63 x = 0 \<and> take_bit 63 y = 0))"

definition float_eq_int :: "64 word \<Rightarrow> int \<Rightarrow> bool" where
  "float_eq_int x i =
     (let e = unat (take_bit 11 (drop_bit 52 x));
          f = uint (take_bit 52 x);
          s = (if bit x 63 then - 1 else 1)
      in if e = 2047 then False
         else if e = 0 then i * 2 ^ 1074 = s * f
         else if 1075 \<le> e then i = s * (2 ^ 52 + f) * 2 ^ (e - 1075)
         else i * 2 ^ (1075 - e) = s * (2 ^ 52 + f))"

definition bool_int :: "bool \<Rightarrow> int" where
  "bool_int b = (if b then 1 else 0)"

fun int_eq_val :: "int \<Rightarrow> pyval \<Rightarrow> bool" where
  "int_eq_val i (PBool b) = (i = bool_int b)"
| "int_eq_val i (PInt j) = (i = j)"
| "int_eq_val i (PFloat y) = float_eq_int y i"
| "int_eq_val i other = False"

fun float_eq_val :: "64 word \<Rightarrow> pyval \<Rightarrow> bool" where
  "float_eq_val x (PBool b) = float_eq_int x (bool_int b)"
| "float_eq_val x (PInt j) = float_eq_int x j"
| "float_eq_val x (PFloat y) = float_eq x y"
| "float_eq_val x other = False"

fun py_eq :: "pyval \<Rightarrow> pyval \<Rightarrow> bool"
  and py_eq_list :: "pyval list \<Rightarrow> pyval list \<Rightarrow> bool"
  and py_eq_items :: "(string \<times> pyval) list \<Rightarrow> (string \<times> pyval) list \<Rightarrow> bool"
  and py_eq_fields :: "(string \<times> pyval) list \<Rightarrow> (string \<times> pyval) list \<Rightarrow> bool"
where
  "py_eq PNone other = (other = PNone)"
| "py_eq (PBool b) other = int_eq_val (bool_int b) other"
| "py_eq (PInt i) other = int_eq_val i other"
| "py_eq (PFloat x) other = float_eq_val x other"
| "py_eq (PStr s) other = (other = PStr s)"
| "py_eq (PList xs) other = (case other of PList ys \<Rightarrow> py_eq_list xs ys | _ \<Rightarrow> False)"
| "py_eq (PDict a) other =
     (case other of PDict b \<Rightarrow> length a = length b \<and> py_eq_items a b | _ \<Rightarrow> False)"
| "py_eq (PDatetime d) other = (other = PDatetime d)"
| "py_eq (PTimedelta t) other = (other = PTimedelta t)"
| "py_eq (PMsg c fs) other =
     (case other of PMsg c' fs' \<Rightarrow> c = c' \<and> py_eq_fields fs fs' | _ \<Rightarrow> False)"
| "py_eq_list [] ys = (ys = [])"
| "py_eq_list (x # xs) ys =
     (case ys of [] \<Rightarrow> False | y # ys' \<Rightarrow> py_eq x y \<and> py_eq_list xs ys')"
| "py_eq_items [] b = True"
| "py_eq_items ((k, v) # a) b =
     (case map_of b k of None \<Rightarrow> False | Some v' \<Rightarrow> py_eq v v' \<and> py_eq_items a b)"
| "py_eq_fields [] fs' = (fs' = [])"
| "py_eq_fields ((k, v) # fs) fs' =
     (case fs' of [] \<Rightarrow> False | (k', v') # rest \<Rightarrow> py_eq v v' \<and> py_eq_fields fs rest)"


subsection \<open>dataclass_field and the field helpers\<close>

text \<open>
  A \<open>dataclasses.Field\<close> as \<open>dataclass_field\<close> builds it: the default
  (\<open>dataclasses.MISSING\<close> or a value) and the metadata dict. The keyword parameters
  \<open>map_types\<close>, \<open>group\<close> (here \<open>grp\<close>) and \<open>wraps\<close> are accepted and not used.
\<close>

datatype default_value = MISSING | Default pyval

datatype meta_value = MInt int | MStr string

record dc_field =
  field_default :: default_value
  field_metadata :: "(string \<times> meta_value) list"

definition dataclass_field ::
  "int \<Rightarrow> string \<Rightarrow> (string \<times> string) option \<Rightarrow> string option \<Rightarrow> string option \<Rightarrow> bool
     \<Rightarrow> dc_field" where
  "dataclass_field number proto_type map_types grp wraps optional =
     \<lparr>field_default = (if optional then Default PNone else MISSING),
      field_metadata =
        [(''betterproto_field_number'', MInt number),
         (''betterproto_proto_type'', MStr proto_type)]\<rparr>"

definition enum_field :: "int \<Rightarrow> string option \<Rightarrow> bool \<Rightarrow> dc_field" where
  "enum_field number grp optional = dataclass_field number ''enum'' None grp None optional"

definition bool_field :: "int \<Rightarrow> string option \<Rightarrow> bool \<Rightarrow> dc_field" where
  "bool_field number grp optional = dataclass_field number ''bool'' None grp None optional"


definition int64_field :: "int \<Rightarrow> string option \<Rightarrow> bool \<Rightarrow> dc_field" where
  "int64_field number grp optional = dataclass_field number ''int64'' None grp None optional"

definition uint32_field :: "int \<Rightarrow> string option \<Rightarrow> bool \<Rightarrow> dc_field" where
  "uint32_field number grp optional = dataclass_field number ''uint32'' None grp None optional"

definition uint64_field :: "int \<Rightarrow> string option \<Rightarrow> bool \<Rightarrow> dc_field" where
  "uint64_field number grp optional = dataclass_field number ''uint64'' None grp None optional"

definition string_field :: "int \<Rightarrow> string option \<Rightarrow> bool \<Rightarrow> dc_field" where
  "string_field number grp optional = dataclass_field number ''string'' None grp None optional"

definition bytes_field :: "int \<Rightarrow> string option \<Rightarrow> bool \<Rightarrow> dc_field" where
  "bytes_field number grp optional = dataclass_field number ''bytes'' None grp None optional"

definition message_field :: "int \<Rightarrow> string option \<Rightarrow> string option \<Rightarrow> bool \<Rightarrow> dc_field" where
  "message_field number grp wraps optional =
     dataclass_field number ''message'' None grp wraps optional"

definition map_field :: "int \<Rightarrow> string \<Rightarrow> string \<Rightarrow> string option \<Rightarrow> dc_field" where
  "map_field number key_type value_type grp =
     dataclass_field number ''map'' (Some (key_type, value_type)) grp None False"

subsection \<open>Message classes and from_dict\<close>

text \<open>
  A type hint is a plain class (no \<open>__origin__\<close>: \<open>int\<close>, \<open>dict\<close>, a message class) or a
  subscripted generic, whose \<open>__origin__\<close> is \<open>dict\<close> (\<open>Dict[K, V]\<close>) or another class
  (\<open>list\<close> for \<open>List[X]\<close>, \<open>Union\<close> for \<open>Optional[X]\<close>, a generic message class).
\<close>

datatype origin = ODict | OClass string

datatype pytype = TClass string | TGeneric origin "pytype list"

fun get_origin :: "pytype \<Rightarrow> origin option" where
  "get_origin (TClass c) = None"
| "get_origin (TGeneric orig args) = Some orig"

text \<open>
  A message class is the list of its dataclass fields: name, annotation and the
  \<open>dataclasses.Field\<close> assigned to it. Classes are looked up by name in a class table,
  since the fields of a class may mention the class itself.
\<close>

record msg_field =
  fname :: string
  ftype :: pytype
  fspec :: dc_field

type_synonym msg_cls = "msg_field list"

type_synonym class_table = "string \<Rightarrow> msg_cls option"

definition get_type_hints :: "msg_cls \<Rightarrow> string \<Rightarrow> pytype option" where
  "get_type_hints cls = map_of (map (\<lambda>f. (fname f, ftype f)) cls)"

text \<open>
  \<open>cls(**processed_data)\<close>, the \<open>__init__\<close> that \<open>@dataclass\<close> generates: a keyword that
  is no field is a \<open>TypeError\<close>; each field takes its keyword, else its default, else
  the call is a \<open>TypeError\<close>. \<open>__post_init__\<close> does nothing.
\<close>

fun init_args :: "msg_cls \<Rightarrow> (string \<times> pyval) list \<Rightarrow> error + (string \<times> pyval) list" where
  "init_args [] kw = Inr []"
| "init_args (f # fs) kw =
     (case (case map_of kw (fname f) of
              Some v \<Rightarrow> Inr v
            | None \<Rightarrow>
                (case field_default (fspec f) of
                   Default d \<Rightarrow> Inr d
                 | MISSING \<Rightarrow> Inl (TypeError (''missing required argument: '' @ fname f)))) of
        Inl e \<Rightarrow> Inl e
      | Inr v \<Rightarrow>
          (case init_args fs kw of
             Inl e \<Rightarrow> Inl e
           | Inr rest \<Rightarrow> Inr ((fname f, v) # rest)))"

definition construct :: "string \<Rightarrow> msg_cls \<Rightarrow> (string \<times> pyval) list \<Rightarrow> error + pyval" where
  "construct c cls kw =
     (case find (\<lambda>k. k \<notin> set (map fname cls)) (map fst kw) of
        Some k \<Rightarrow> Inl (TypeError (''unexpected keyword argument: '' @ k))
      | None \<Rightarrow>
          (case init_args cls kw of
             Inl e \<Rightarrow> Inl e
           | Inr fs \<Rightarrow> Inr (PMsg c fs)))"

fun isinstance_dict :: "pyval \<Rightarrow> bool" where
  "isinstance_dict (PDict d) = True"
| "isinstance_dict obj = False"

text \<open>
  The test of \<open>from_dict\<close> for a nested message:
  \<open>isinstance(field_value, dict) and hasattr(field_type, "__origin__") and
  field_type.__origin__ is not dict\<close>.
\<close>

definition is_nested_message :: "pyval \<Rightarrow> pytype \<Rightarrow> bool" where
  "is_nested_message field_value field_type \<longleftrightarrow>
     isinstance_dict field_value \<and> get_origin field_type \<noteq> None
       \<and> get_origin field_type \<noteq> Some ODict"

text \<open>
  \<open>StandardMessage.from_dict\<close> with its loop over \<open>data.items()\<close> (\<open>process_items\<close>,
  which carries \<open>processed_data\<close>) and the call \<open>field_type.from_dict(field_value)\<close>
  (\<open>type_from_dict\<close>): a subscripted generic hands the attribute lookup to its origin,
  and a class that is no message class has no \<open>from_dict\<close>.
\<close>

fun from_dict :: "class_table \<Rightarrow> string \<Rightarrow> pyval \<Rightarrow> error + pyval"
  and process_items ::
    "class_table \<Rightarrow> (string \<Rightarrow> pytype option) \<Rightarrow> (string \<times> pyval) list
       \<Rightarrow> (string \<times> pyval) list \<Rightarrow> error + (string \<times> pyval) list"
  and type_from_dict :: "class_table \<Rightarrow> pytype \<Rightarrow> pyval \<Rightarrow> error + pyval"
where
  "from_dict ct c (PDict data) =
     (case ct c of
        None \<Rightarrow> Inl (AttributeError ''from_dict'')
      | Some cls \<Rightarrow>
          (case process_items ct (get_type_hints cls) data [] of
             Inl e \<Rightarrow> Inl e
           | Inr processed_data \<Rightarrow> construct c cls processed_data))"
| "from_dict ct c data =
     (case ct c of
        None \<Rightarrow> Inl (AttributeError ''from_dict'')
      | Some cls \<Rightarrow> Inl (AttributeError ''items''))"
| "process_items ct field_types [] processed_data = Inr processed_data"
| "process_items ct field_types ((field_name, field_value) # rest) processed_data =
     (case field_types field_name of
        None \<Rightarrow> process_items ct field_types rest processed_data
      | Some field_type \<Rightarrow>
          if is_nested_message field_value field_type
          then (case type_from_dict ct field_type field_value of
                  Inl e \<Rightarrow> Inl e
                | Inr m \<Rightarrow>
                    process_items ct field_types rest (AList.update field_name m processed_data))
          else process_items ct field_types rest
                 (AList.update field_name field_value processed_data))"
| "type_from_dict ct (TGeneric (OClass c) args) field_value = from_dict ct c field_value"
| "type_from_dict ct (TGeneric ODict args) field_value = Inl (AttributeError ''from_dict'')"
| "type_from_dict ct (TClass c) field_value = from_dict ct c field_value"




section \<open>plugin/standard_plugin.py\<close>

text \<open>
  \<open>str.replace(old, new)\<close>: every occurrence of \<open>old\<close>, found from left to right without
  overlap, is replaced; an empty \<open>old\<close> matches before every character and at the end.
\<close>

function str_replace :: "string \<Rightarrow> string \<Rightarrow> string \<Rightarrow> string" where
  "str_replace old new [] = (if old = [] then new else [])"
| "str_replace old new (c # s) =
     (if old = [] then new @ c # str_replace old new s
      else if take (length old) (c # s) = old
           then new @ str_replace old new (drop (length old) (c # s))
           else c # str_replace old new s)"
  by pat_completeness auto

termination str_replace
  by (relation "measure (\<lambda>(old, new, s). length s)") auto

text \<open>
  The request and the response as \<open>json.loads\<close> delivers and \<open>json.dumps\<close> receives
  them: objects whose keys may be absent. A file of the request has an optional
  \<open>name\<close> and an optional \<open>content\<close>; the request has an optional \<open>file\<close> list.
\<close>

record proto_file =
  pf_name :: "string option"
  pf_content :: "string option"

record request =
  req_file :: "proto_file list option"

record out_file =
  out_name :: string
  out_content :: string

text \<open>
  The collaborators the plugin imports and does not define: \<open>Parser.parse_proto\<close>,
  \<open>Compiler.compile_parsed\<close> (with its \<open>include_imports\<close> flag) and the Jinja
  environment, whose \<open>get_template\<close> gives a template that renders a compiled file to
  text. Each of them may raise. What they parse and compile to is left open.
\<close>

record ('p, 'c) collaborators =
  parse_proto :: "string \<Rightarrow> error + 'p"
  compile_parsed :: "'p \<Rightarrow> bool \<Rightarrow> error + 'c"
  get_template :: "string \<Rightarrow> error + ('c \<Rightarrow> error + string)"

definition dict_get :: "'a option \<Rightarrow> 'a \<Rightarrow> 'a" where
  "dict_get entry dflt = (case entry of None \<Rightarrow> dflt | Some v \<Rightarrow> v)"

definition separator :: string where
  "separator = [CHR 0x0A, CHR 0x0A]"

text \<open>
  The body of the loop of \<open>main\<close> for a file with a name: the output name, then parse,
  compile, load both templates, render the header, append the separator, render the code.
\<close>

definition main_body :: "('p, 'c) collaborators \<Rightarrow> proto_file \<Rightarrow> error + out_file" where
  "main_body K proto_file =
     (let proto_name = dict_get (pf_name proto_file) '''';
          output_file = str_replace ''.proto'' ''_pb.py'' proto_name
      in case parse_proto K (dict_get (pf_content proto_file) '''') of
           Inl e \<Rightarrow> Inl e
         | Inr parsed \<Rightarrow>
        (case compile_parsed K parsed False of
           Inl e \<Rightarrow> Inl e
         | Inr compiled \<Rightarrow>
        (case get_template K ''standard_header.py.j2'' of
           Inl e \<Rightarrow> Inl e
         | Inr header_template \<Rightarrow>
        (case get_template K ''standard_template.py.j2'' of
           Inl e \<Rightarrow> Inl e
         | Inr code_template \<Rightarrow>
        (case header_template compiled of
           Inl e \<Rightarrow> Inl e
         | Inr header \<Rightarrow>
        (case code_template compiled of
           Inl e \<Rightarrow> Inl e
         | Inr code \<Rightarrow>
             Inr \<lparr>out_name = output_file,
                  out_content = header @ separator @ code\<rparr>))))))"

text \<open>
  The loop of \<open>main\<close> over the files of the request; \<open>response\<close> is the list under
  \<open>response["file"]\<close>. A file without a name, or with an empty one, is passed over.
\<close>

fun main_loop ::
  "('p, 'c) collaborators \<Rightarrow> proto_file list \<Rightarrow> out_file list \<Rightarrow> error + out_file list" where
  "main_loop K [] response = Inr response"
| "main_loop K (proto_file # rest) response =
     (if dict_get (pf_name proto_file) '''' = [] then main_loop K rest response
      else (case main_body K proto_file of
              Inl e \<Rightarrow> Inl e
            | Inr generated \<Rightarrow> main_loop K rest (response @ [generated])))"

text \<open>
  \<open>main\<close>, from the parsed request to the response object that is written out. An
  exception of a collaborator leaves \<open>main\<close> and nothing is written.
\<close>

definition main :: "('p, 'c) collaborators \<Rightarrow> request \<Rightarrow> error + out_file list" where
  "main K req = main_loop K (dict_get (req_file req) []) []"

text \<open>
  \<open>generate_code\<close> on a file system (path to content). The output file is opened for
  writing, which empties it, once parsing, compiling and template loading have passed;
  the three writes follow, and a write that has happened stays when a later render raises.
\<close>

definition generate_code ::
  "('p, 'c) collaborators \<Rightarrow> (string \<Rightarrow> string option) \<Rightarrow> string \<Rightarrow> string \<Rightarrow> bool
     \<Rightarrow> string option \<Rightarrow> string option \<Rightarrow> (error + unit) \<times> (string \<Rightarrow> string option)" where
  "generate_code K fs proto_file output_file include_imports package_override
       python_module_override =
     (case fs proto_file of
        None \<Rightarrow> (Inl (Raised ''FileNotFoundError''), fs)
      | Some proto_content \<Rightarrow>
     (case parse_proto K proto_content of
        Inl e \<Rightarrow> (Inl e, fs)
      | Inr parsed \<Rightarrow>
     (case compile_parsed K parsed include_imports of
        Inl e \<Rightarrow> (Inl e, fs)
      | Inr compiled \<Rightarrow>
     (case get_template K ''standard_header.py.j2'' of
        Inl e \<Rightarrow> (Inl e, fs)
      | Inr header_template \<Rightarrow>
     (case get_template K ''standard_template.py.j2'' of
        Inl e \<Rightarrow> (Inl e, fs)
      | Inr code_template \<Rightarrow>
     (case header_template compiled of
        Inl e \<Rightarrow> (Inl e, fs(output_file \<mapsto> ''''))
      | Inr header \<Rightarrow>
     (case code_template compiled of
        Inl e \<Rightarrow> (Inl e, fs(output_file \<mapsto> header @ separator))
      | Inr code \<Rightarrow>
          (Inr (), fs(output_file \<mapsto> header @ separator @ code)))))))))"

section \<open>The field-number check of the compiler\<close>

text \<open>
  Modelled from the spec: the check of the Compiled Model Builder
  (\<open>betterproto.plugin.compiler.Compiler\<close>, which the plugin imports and whose source is
  not at hand) that "fails (propagates, does not recover) [...] if two fields in the same
  message share a field number", with the error the spec names
  \<open>DuplicateFieldNumberError\<close>. A field of the schema has a name, a non-negative number
  and a declared type name. The fields are visited in declaration order with the numbers
  seen so far.
\<close>

record schema_field =
  sf_name :: string
  sf_number :: nat
  sf_type :: string

fun check_field_numbers :: "nat list \<Rightarrow> schema_field list \<Rightarrow> error + unit" where
  "check_field_numbers seen [] = Inr ()"
| "check_field_numbers seen (f # fs) =
     (if sf_number f \<in> set seen then Inl DuplicateFieldNumberError
      else check_field_numbers (sf_number f # seen) fs)"

definition compile_message :: "schema_field list \<Rightarrow> error + schema_field list" where
  "compile_message fs =
     (case check_field_numbers [] fs of
        Inl e \<Rightarrow> Inl e
      | Inr u \<Rightarrow> Inr fs)"

section \<open>Properties of StandardEnum\<close>

lemma lookup_value_None_iff: "lookup_value ds v = None \<longleftrightarrow> v \<notin> snd ` set ds"
  by (induction ds v rule: lookup_value.induct) auto

lemma lookup_value_Some_value: "lookup_value ds v = Some m \<Longrightarrow> member_value m = v"
  by (induction ds v rule: lookup_value.induct) (auto split: if_splits)

lemma lookup_value_declared: "(n, v) \<in> set ds \<Longrightarrow> \<exists>m. lookup_value ds v = Some m"
  using lookup_value_None_iff [of ds v] by (cases "lookup_value ds v") force+


lemma members_Nil: "declared E = [] \<Longrightarrow> members E = []"
  by (simp add: members_def List.map_filter_simps)

lemma map_of_map_filter_declared:
  "map_of (List.map_filter (\<lambda>(n, v). map_option (Pair n) (lookup_value ds0 v)) ds) s =
     (case map_of ds s of None \<Rightarrow> None | Some v \<Rightarrow> lookup_value ds0 v)"
  if "snd ` set ds \<subseteq> snd ` set ds0"
  using that
proof (induction ds)
  case Nil
  then show ?case by (simp add: List.map_filter_simps)
next
  case (Cons p ds)
  obtain n v where p: "p = (n, v)" by (cases p)
  from Cons.prems p have "v \<in> snd ` set ds0" by auto
  then obtain m where m: "lookup_value ds0 v = Some m"
    using lookup_value_None_iff [of ds0 v] by (cases "lookup_value ds0 v") auto
  from Cons.prems have "snd ` set ds \<subseteq> snd ` set ds0" by auto
  with Cons.IH p m show ?case by (simp add: List.map_filter_simps)
qed

lemma map_of_members:
  "map_of (members E) s =
     (case map_of (declared E) s of None \<Rightarrow> None | Some v \<Rightarrow> lookup_value (declared E) v)"
  unfolding members_def by (rule map_of_map_filter_declared) simp








text \<open>
  C9. For every enum type E and every string s: when s is a declared name of E, bound to the
  value v, \<open>from_string E s\<close> returns the member that \<open>E.__members__\<close> gives for s; that
  member has the value v and carries a declared name of E (s itself, unless s is an alias of
  an earlier name with the same value). When s is not a declared name, \<open>from_string E s\<close>
  raises \<open>ValueError\<close>. In no case does a \<open>KeyError\<close> leave the function.
\<close>

theorem from_string_member_or_ValueError:
  "(\<forall>v. map_of (declared E) s = Some v \<longrightarrow>
      (\<exists>m. from_string E s = Inr m \<and> map_of (members E) s = Some m
           \<and> member_value m = v \<and> lookup_value (declared E) v = Some m))
   \<and> (s \<notin> fst ` set (declared E) \<longrightarrow>
        from_string E s = Inl (ValueError (''Unknown value '' @ s @ '' for enum '' @ cls_name E)))
   \<and> (\<forall>k. from_string E s \<noteq> Inl (KeyError k))"
proof (intro conjI allI impI)
  fix v assume v: "map_of (declared E) s = Some v"
  then have "(s, v) \<in> set (declared E)" by (rule map_of_SomeD)
  from lookup_value_declared [OF this] obtain m
    where m: "lookup_value (declared E) v = Some m" ..
  from v m have mm: "map_of (members E) s = Some m" by (simp add: map_of_members)
  from mm have "from_string E s = Inr m" by (simp add: from_string_def enum_getitem_def)
  with mm m lookup_value_Some_value [OF m]
  show "\<exists>m. from_string E s = Inr m \<and> map_of (members E) s = Some m
           \<and> member_value m = v \<and> lookup_value (declared E) v = Some m"
    by blast
next
  assume "s \<notin> fst ` set (declared E)"
  then have "map_of (declared E) s = None" by (simp add: map_of_eq_None_iff)
  then have "map_of (members E) s = None" by (simp add: map_of_members)
  then show "from_string E s = Inl (ValueError (''Unknown value '' @ s @ '' for enum '' @ cls_name E))"
    by (simp add: from_string_def enum_getitem_def)
next
  fix k show "from_string E s \<noteq> Inl (KeyError k)"
    by (simp add: from_string_def enum_getitem_def split: option.splits)
qed

theorem from_string_member_or_ValueError_witness:
  "from_string \<lparr>cls_name = ''Color'',
               declared = [(''RED'', 0), (''GREEN'', 1), (''BLUE'', 2)]\<rparr> ''GREEN'' =
     Inr \<lparr>member_name = ''GREEN'', member_value = 1\<rparr>
   \<and> from_string \<lparr>cls_name = ''Color'',
                 declared = [(''RED'', 0), (''GREEN'', 1), (''BLUE'', 2)]\<rparr> ''PURPLE'' =
     Inl (ValueError ''Unknown value PURPLE for enum Color'')"
  using from_string_member_or_ValueError
    [of "\<lparr>cls_name = ''Color'', declared = [(''RED'', 0), (''GREEN'', 1), (''BLUE'', 2)]\<rparr>"
        "''GREEN''"]
    from_string_member_or_ValueError
    [of "\<lparr>cls_name = ''Color'', declared = [(''RED'', 0), (''GREEN'', 1), (''BLUE'', 2)]\<rparr>"
        "''PURPLE''"]
  by auto

section \<open>Properties of the field helpers\<close>

text \<open>
  C4 (as stated, refuted). The group of a field cannot be read back from the field record:
  two enum fields that differ only in their oneof group are the same record, and so is the
  field created with no group at all.
\<close>

theorem enum_field_group_not_recoverable:
  "enum_field 1 (Some ''shape'') False = enum_field 1 (Some ''colour'') False
   \<and> enum_field 1 (Some ''shape'') False = enum_field 1 None False
   \<and> Some ''shape'' \<noteq> Some ''colour''"
  by (simp add: enum_field_def dataclass_field_def)

text \<open>
  C4 (amended). For every field created with a oneof group name, the produced field record
  is classified by its underlying type category: its metadata holds the field number and the
  proto type (\<open>enum\<close> for \<open>enum_field\<close>, \<open>message\<close> for \<open>message_field\<close>) and nothing
  else. The group is not stored: the record is the one created without a group.
\<close>

theorem dataclass_field_stores_number_and_type_only:
  "field_metadata (dataclass_field number proto_type map_types grp wraps optional) =
     [(''betterproto_field_number'', MInt number), (''betterproto_proto_type'', MStr proto_type)]
   \<and> dataclass_field number proto_type map_types grp wraps optional =
       dataclass_field number proto_type map_types None wraps optional
   \<and> enum_field number grp optional = enum_field number None optional
   \<and> map_of (field_metadata (enum_field number grp optional)) ''betterproto_proto_type'' =
       Some (MStr ''enum'')
   \<and> message_field number grp wraps optional = message_field number None wraps optional
   \<and> map_of (field_metadata (message_field number grp wraps optional))
         ''betterproto_proto_type'' = Some (MStr ''message'')"
  by (simp add: enum_field_def message_field_def dataclass_field_def)

text \<open>
  C5 (as stated, refuted). The key and value types of a map field cannot be read back from
  the field record: two map fields that differ only in them are the same record.
\<close>

theorem map_field_types_not_recoverable:
  "map_field 2 ''string'' ''int32'' None = map_field 2 ''int64'' ''bytes'' None
   \<and> (''string'', ''int32'') \<noteq> (''int64'', ''bytes'')"
  by (simp add: map_field_def dataclass_field_def)

text \<open>
  C5 (amended). For every map field created with a key type and a value type, the produced
  field record holds the field number and the category \<open>map\<close> and nothing else, whatever
  key and value types were declared: they are not stored, and the record is the same for
  every choice of them.
\<close>

theorem map_field_stores_number_and_map_only:
  "field_metadata (map_field number key_type value_type grp) =
     [(''betterproto_field_number'', MInt number), (''betterproto_proto_type'', MStr ''map'')]
   \<and> field_default (map_field number key_type value_type grp) = MISSING
   \<and> map_field number key_type value_type grp = map_field number key_type' value_type' grp'"
  by (simp add: map_field_def dataclass_field_def)

section \<open>Properties of the field-number check\<close>

lemma check_field_numbers_iff:
  "check_field_numbers seen fs = Inr () \<longleftrightarrow>
     distinct (map sf_number fs) \<and> set (map sf_number fs) \<inter> set seen = {}"
  by (induction seen fs rule: check_field_numbers.induct) auto

lemma check_field_numbers_error:
  "check_field_numbers seen fs = Inl e \<Longrightarrow> e = DuplicateFieldNumberError"
  by (induction seen fs rule: check_field_numbers.induct) (auto split: if_splits)

text \<open>
  C6. For every message in which two fields are declared with the same field number,
  compiling the message raises \<open>DuplicateFieldNumberError\<close>; for every message whose
  field numbers are pairwise distinct, no error is raised and the fields are passed on.
\<close>

theorem compile_message_duplicate_field_number:
  "(\<not> distinct (map sf_number fs) \<longrightarrow> compile_message fs = Inl DuplicateFieldNumberError)
   \<and> (distinct (map sf_number fs) \<longrightarrow> compile_message fs = Inr fs)"
proof (cases "check_field_numbers [] fs")
  case (Inl e)
  then have "e = DuplicateFieldNumberError" by (rule check_field_numbers_error)
  moreover from Inl have "\<not> distinct (map sf_number fs)"
    using check_field_numbers_iff [of "[]" fs] by auto
  ultimately show ?thesis using Inl by (simp add: compile_message_def)
next
  case (Inr u)
  then have "distinct (map sf_number fs)"
    using check_field_numbers_iff [of "[]" fs] by simp
  with Inr show ?thesis by (simp add: compile_message_def)
qed

theorem compile_message_duplicate_field_number_witness:
  "compile_message
     [\<lparr>sf_name = ''x'', sf_number = 1, sf_type = ''int32''\<rparr>,
      \<lparr>sf_name = ''y'', sf_number = 1, sf_type = ''int32''\<rparr>] = Inl DuplicateFieldNumberError
   \<and> compile_message
       [\<lparr>sf_name = ''x'', sf_number = 1, sf_type = ''int32''\<rparr>,
        \<lparr>sf_name = ''y'', sf_number = 2, sf_type = ''int32''\<rparr>] =
       Inr [\<lparr>sf_name = ''x'', sf_number = 1, sf_type = ''int32''\<rparr>,
            \<lparr>sf_name = ''y'', sf_number = 2, sf_type = ''int32''\<rparr>]"
  using compile_message_duplicate_field_number
    [of "[\<lparr>sf_name = ''x'', sf_number = 1, sf_type = ''int32''\<rparr>,
          \<lparr>sf_name = ''y'', sf_number = 1, sf_type = ''int32''\<rparr>]"]
    compile_message_duplicate_field_number
    [of "[\<lparr>sf_name = ''x'', sf_number = 1, sf_type = ''int32''\<rparr>,
          \<lparr>sf_name = ''y'', sf_number = 2, sf_type = ''int32''\<rparr>]"]
  by simp

section \<open>Properties of from_dict and to_dict\<close>



lemma process_items_other:
  "k \<notin> fst ` set data \<Longrightarrow> process_items ct h data acc = Inr kw \<Longrightarrow> map_of kw k = map_of acc k"
proof (induction data arbitrary: acc)
  case Nil
  then show ?case by simp
next
  case (Cons p data)
  obtain n v where p: "p = (n, v)" by (cases p)
  from Cons.prems p have nk: "n \<noteq> k" and rest: "k \<notin> fst ` set data" by auto
  show ?case
  proof (cases "h n")
    case None
    with Cons.prems p have "process_items ct h data acc = Inr kw" by simp
    from Cons.IH [OF rest this] show ?thesis .
  next
    case (Some t)
    show ?thesis
    proof (cases "is_nested_message v t")
      case True
      with Cons.prems p Some obtain m where
        "process_items ct h data (AList.update n m acc) = Inr kw"
        by (auto split: sum.splits)
      from Cons.IH [OF rest this] nk show ?thesis by (simp add: update_conv')
    next
      case False
      with Cons.prems p Some have
        "process_items ct h data (AList.update n v acc) = Inr kw" by simp
      from Cons.IH [OF rest this] nk show ?thesis by (simp add: update_conv')
    qed
  qed
qed

lemma process_items_keeps:
  "h k = Some t \<Longrightarrow> \<not> is_nested_message v t \<Longrightarrow> (k, v) \<in> set data \<Longrightarrow>
   distinct (map fst data) \<Longrightarrow> process_items ct h data acc = Inr kw \<Longrightarrow> map_of kw k = Some v"
proof (induction data arbitrary: acc)
  case Nil
  then show ?case by simp
next
  case (Cons p data)
  obtain n w where p: "p = (n, w)" by (cases p)
  from Cons.prems(4) p have dist: "distinct (map fst data)" and fresh: "n \<notin> fst ` set data"
    by auto
  show ?case
  proof (cases "n = k")
    case True
    with Cons.prems(3) p fresh have w: "w = v" by force
    from Cons.prems(1,2,5) p True w have
      "process_items ct h data (AList.update k v acc) = Inr kw" by simp
    from process_items_other [OF _ this] fresh True show ?thesis by (simp add: update_conv')
  next
    case False
    with Cons.prems(3) p have mem: "(k, v) \<in> set data" by auto
    from Cons.prems(5) p obtain acc' where "process_items ct h data acc' = Inr kw"
      by (auto split: option.splits if_splits sum.splits)
    from Cons.IH [OF Cons.prems(1,2) mem dist this] show ?thesis .
  qed
qed

lemma init_args_lookup:
  "init_args cls kw = Inr fs \<Longrightarrow> k \<in> fname ` set cls \<Longrightarrow> map_of kw k = Some v \<Longrightarrow>
     map_of fs k = Some v"
  by (induction cls arbitrary: fs) (auto split: sum.splits option.splits default_value.splits)

lemma construct_lookup:
  "construct c cls kw = Inr m \<Longrightarrow> k \<in> fname ` set cls \<Longrightarrow> map_of kw k = Some v \<Longrightarrow>
     \<exists>fs. m = PMsg c fs \<and> map_of fs k = Some v"
  by (auto simp: construct_def split: option.splits sum.splits dest: init_args_lookup)

lemma get_type_hints_field: "get_type_hints cls k = Some t \<Longrightarrow> k \<in> fname ` set cls"
  by (auto simp: get_type_hints_def dest!: map_of_SomeD)

text \<open>
  C7. During \<open>from_dict\<close>, for every field whose declared type is a mapping type
  (\<open>Dict[K, V]\<close>, origin \<open>dict\<close>) or carries no \<open>__origin__\<close> at all (a plain
  class such as \<open>dict\<close>), a dict value supplied for that field is not taken for a nested message: the
  test for a nested message is false, no message object is built from it, and the message
  that \<open>from_dict\<close> returns holds the dict as it was supplied.
\<close>

theorem from_dict_keeps_mapping_typed_dict:
  assumes "ct c = Some cls"
    and "get_type_hints cls field_name = Some field_type"
    and "get_origin field_type = Some ODict \<or> get_origin field_type = None"
    and "(field_name, PDict d) \<in> set data"
    and "distinct (map fst data)"
    and "from_dict ct c (PDict data) = Inr m"
  shows "\<not> is_nested_message (PDict d) field_type
         \<and> (\<exists>fs. m = PMsg c fs \<and> map_of fs field_name = Some (PDict d))"
proof -
  from assms(3) have skip: "\<not> is_nested_message (PDict d) field_type"
    by (auto simp: is_nested_message_def)
  from assms(1,6) obtain kw where
    kw: "process_items ct (get_type_hints cls) data [] = Inr kw"
    and m: "construct c cls kw = Inr m"
    by (auto split: sum.splits)
  from process_items_keeps [OF assms(2) skip assms(4,5) kw]
  have "map_of kw field_name = Some (PDict d)" .
  from construct_lookup [OF m get_type_hints_field [OF assms(2)] this] skip
  show ?thesis by simp
qed


theorem from_dict_keeps_mapping_typed_dict_witness:
  "from_dict
     (map_of [(''Config'',
        [\<lparr>fname = ''labels'', ftype = TGeneric ODict [TClass ''str'', TClass ''str''],
          fspec = map_field 1 ''string'' ''string'' None\<rparr>,
         \<lparr>fname = ''name'', ftype = TClass ''str'', fspec = string_field 2 None False\<rparr>])])
     ''Config''
     (PDict [(''name'', PStr ''a''), (''labels'', PDict [(''env'', PStr ''prod'')])]) =
   Inr (PMsg ''Config''
          [(''labels'', PDict [(''env'', PStr ''prod'')]), (''name'', PStr ''a'')])
   \<and> \<not> is_nested_message (PDict [(''env'', PStr ''prod'')])
         (TGeneric ODict [TClass ''str'', TClass ''str''])"
proof -
  let ?cls = "[\<lparr>fname = ''labels'', ftype = TGeneric ODict [TClass ''str'', TClass ''str''],
                 fspec = map_field 1 ''string'' ''string'' None\<rparr>,
               \<lparr>fname = ''name'', ftype = TClass ''str'', fspec = string_field 2 None False\<rparr>]"
  let ?ct = "map_of [(''Config'', ?cls)]"
  let ?data = "[(''name'', PStr ''a''), (''labels'', PDict [(''env'', PStr ''prod'')])]"
  let ?m = "PMsg ''Config'' [(''labels'', PDict [(''env'', PStr ''prod'')]), (''name'', PStr ''a'')]"
  have run: "from_dict ?ct ''Config'' (PDict ?data) = Inr ?m"
    by (simp add: get_type_hints_def is_nested_message_def construct_def)
  have "?ct ''Config'' = Some ?cls" by simp
  moreover have "get_type_hints ?cls ''labels'' = Some (TGeneric ODict [TClass ''str'', TClass ''str''])"
    by (simp add: get_type_hints_def)
  moreover have "get_origin (TGeneric ODict [TClass ''str'', TClass ''str'']) = Some ODict
                 \<or> get_origin (TGeneric ODict [TClass ''str'', TClass ''str'']) = None" by simp
  moreover have "(''labels'', PDict [(''env'', PStr ''prod'')]) \<in> set ?data" by simp
  moreover have "distinct (map fst ?data)" by simp
  ultimately show ?thesis
    using from_dict_keeps_mapping_typed_dict [of ?ct "''Config''" ?cls "''labels''" _ _ ?data ?m] run
    by blast
qed





















section \<open>Properties of the plugin\<close>


lemma main_body_name:
  "main_body K pf = Inr g \<Longrightarrow>
     out_name g = str_replace ''.proto'' ''_pb.py'' (dict_get (pf_name pf) '''')"
  by (auto simp: main_body_def Let_def split: sum.splits)

lemma main_body_content:
  "main_body K pf = Inr g \<Longrightarrow>
     \<exists>parsed compiled header_template code_template header code.
        parse_proto K (dict_get (pf_content pf) '''') = Inr parsed
      \<and> compile_parsed K parsed False = Inr compiled
      \<and> get_template K ''standard_header.py.j2'' = Inr header_template
      \<and> get_template K ''standard_template.py.j2'' = Inr code_template
      \<and> header_template compiled = Inr header
      \<and> code_template compiled = Inr code
      \<and> out_content g = header @ separator @ code"
  by (auto simp: main_body_def Let_def split: sum.splits)

lemma main_loop_named:
  "main_loop K files acc = Inr response \<Longrightarrow>
   \<forall>pf \<in> set files. \<exists>n. pf_name pf = Some n \<and> n \<noteq> [] \<Longrightarrow>
   \<exists>gen. response = acc @ gen \<and> map Inr gen = map (main_body K) files"
proof (induction files arbitrary: acc)
  case Nil
  then show ?case by simp
next
  case (Cons pf files)
  from Cons.prems(2) have named: "dict_get (pf_name pf) '''' \<noteq> []"
    by (auto simp: dict_get_def)
  with Cons.prems(1) obtain g where g: "main_body K pf = Inr g"
    and rest: "main_loop K files (acc @ [g]) = Inr response"
    by (auto split: sum.splits)
  from Cons.prems(2) have "\<forall>pf \<in> set files. \<exists>n. pf_name pf = Some n \<and> n \<noteq> []" by simp
  from Cons.IH [OF rest this] obtain gen
    where "response = (acc @ [g]) @ gen" and "map Inr gen = map (main_body K) files" by blast
  with g have "response = acc @ (g # gen) \<and> map Inr (g # gen) = map (main_body K) (pf # files)"
    by simp
  then show ?case by blast
qed

lemma main_loop_succeeds:
  "\<forall>pf \<in> set files. \<exists>g. main_body K pf = Inr g \<Longrightarrow> \<exists>response. main_loop K files acc = Inr response"
  by (induction files arbitrary: acc) auto

lemma main_loop_members:
  "main_loop K files acc = Inr response \<Longrightarrow> g \<in> set response \<Longrightarrow>
     g \<in> set acc \<or> (\<exists>pf \<in> set files. main_body K pf = Inr g)"
proof (induction files arbitrary: acc)
  case Nil
  then show ?case by simp
next
  case (Cons pf files)
  show ?case
  proof (cases "dict_get (pf_name pf) '''' = []")
    case True
    with Cons.prems have "main_loop K files acc = Inr response" by simp
    from Cons.IH [OF this Cons.prems(2)] show ?thesis by auto
  next
    case False
    with Cons.prems(1) obtain g' where g': "main_body K pf = Inr g'"
      and rest: "main_loop K files (acc @ [g']) = Inr response"
      by (auto split: sum.splits)
    from Cons.IH [OF rest Cons.prems(2)] g' show ?thesis by auto
  qed
qed

text \<open>
  C2. For every request whose file list holds named proto files (each with a non-empty
  name), a response of \<open>main\<close> holds exactly one generated file per input file, in the
  order of the request: the i-th output is what the loop body generates for the i-th input,
  under the name derived from that input's name. \<open>main\<close> does respond whenever the
  generation of each file raises nothing.
\<close>

theorem main_one_output_per_named_file:
  assumes "req_file req = Some files"
    and "\<forall>pf \<in> set files. \<exists>n. pf_name pf = Some n \<and> n \<noteq> []"
  shows "(\<forall>response. main K req = Inr response \<longrightarrow>
            length response = length files
          \<and> map Inr response = map (main_body K) files
          \<and> map out_name response =
              map (\<lambda>pf. str_replace ''.proto'' ''_pb.py'' (dict_get (pf_name pf) '''')) files)
       \<and> ((\<forall>pf \<in> set files. \<exists>g. main_body K pf = Inr g) \<longrightarrow>
            (\<exists>response. main K req = Inr response))"
proof (intro conjI allI impI)
  fix response assume run: "main K req = Inr response"
  with assms(1) have "main_loop K files [] = Inr response" by (simp add: main_def dict_get_def)
  from main_loop_named [OF this assms(2)]
  have gen: "map Inr response = map (main_body K) files" by simp
  then show "map Inr response = map (main_body K) files" .
  from gen have "length (map Inr response :: (error + out_file) list) = length (map (main_body K) files)"
    by simp
  then show len: "length response = length files" by simp
  show "map out_name response =
          map (\<lambda>pf. str_replace ''.proto'' ''_pb.py'' (dict_get (pf_name pf) '''')) files"
  proof (rule nth_equalityI)
    show "length (map out_name response) =
            length (map (\<lambda>pf. str_replace ''.proto'' ''_pb.py'' (dict_get (pf_name pf) '''')) files)"
      using len by simp
  next
    fix i assume "i < length (map out_name response)"
    then have i: "i < length response" by simp
    with len have i': "i < length files" by simp
    from gen have "map Inr response ! i = map (main_body K) files ! i" by simp
    with i i' have "main_body K (files ! i) = Inr (response ! i)" by simp
    from main_body_name [OF this] i i'
    show "map out_name response ! i =
            map (\<lambda>pf. str_replace ''.proto'' ''_pb.py'' (dict_get (pf_name pf) '''')) files ! i"
      by simp
  qed
next
  assume "\<forall>pf \<in> set files. \<exists>g. main_body K pf = Inr g"
  from main_loop_succeeds [OF this] assms(1)
  show "\<exists>response. main K req = Inr response" by (simp add: main_def dict_get_def)
qed

lemma str_replace_no_dot:
  "CHR ''.'' \<notin> set base \<Longrightarrow>
     str_replace ''.proto'' ''_pb.py'' (base @ ''.proto'') = base @ ''_pb.py''"
  by (induction base) auto

text \<open>
  C3 (the code at a name where it departs from the claim). \<open>main\<close> derives the output
  name with \<open>str.replace\<close>, which rewrites every occurrence of \<open>.proto\<close>, not only the
  extension: for \<open>my.protos/user.proto\<close> the directory part is rewritten too, where
  replacing the extension alone gives \<open>my.protos/user_pb.py\<close>. For a name whose only dot
  is the one of the extension the two agree (\<open>str_replace_no_dot\<close>).
\<close>

theorem main_output_name_replaces_every_occurrence:
  "str_replace ''.proto'' ''_pb.py'' ''my.protos/user.proto'' = ''my_pb.pys/user_pb.py''
   \<and> main \<lparr>parse_proto = Inr, compile_parsed = (\<lambda>parsed include_imports. Inr parsed),
            get_template = (\<lambda>name. Inr (\<lambda>compiled. Inr name))\<rparr>
        \<lparr>req_file = Some [\<lparr>pf_name = Some ''my.protos/user.proto'', pf_content = Some ''''\<rparr>]\<rparr> =
      Inr [\<lparr>out_name = ''my_pb.pys/user_pb.py'',
            out_content = ''standard_header.py.j2'' @ separator @ ''standard_template.py.j2''\<rparr>]"
  by (simp add: main_def main_body_def dict_get_def)

text \<open>
  C8. Every generated output, a file of the response of \<open>main\<close> as well as the file
  \<open>generate_code\<close> writes, has as content the rendered header template, then the
  separator of two newlines, then the rendered code template, both rendered from the same
  compiled file.
\<close>

theorem output_is_header_separator_code:
  "(\<forall>response g. main K req = Inr response \<longrightarrow> g \<in> set response \<longrightarrow>
      (\<exists>pf parsed compiled header_template code_template header code.
          pf \<in> set (dict_get (req_file req) [])
        \<and> parse_proto K (dict_get (pf_content pf) '''') = Inr parsed
        \<and> compile_parsed K parsed False = Inr compiled
        \<and> get_template K ''standard_header.py.j2'' = Inr header_template
        \<and> get_template K ''standard_template.py.j2'' = Inr code_template
        \<and> header_template compiled = Inr header
        \<and> code_template compiled = Inr code
        \<and> out_content g = header @ [CHR 0x0A, CHR 0x0A] @ code))
   \<and> (\<forall>fs'. generate_code K fs proto_file output_file include_imports po mo = (Inr (), fs') \<longrightarrow>
      (\<exists>proto_content parsed compiled header_template code_template header code.
          fs proto_file = Some proto_content
        \<and> parse_proto K proto_content = Inr parsed
        \<and> compile_parsed K parsed include_imports = Inr compiled
        \<and> get_template K ''standard_header.py.j2'' = Inr header_template
        \<and> get_template K ''standard_template.py.j2'' = Inr code_template
        \<and> header_template compiled = Inr header
        \<and> code_template compiled = Inr code
        \<and> fs' = fs(output_file \<mapsto> header @ [CHR 0x0A, CHR 0x0A] @ code)))"
proof (intro conjI allI impI)
  fix response g
  assume run: "main K req = Inr response" and g: "g \<in> set response"
  from run have "main_loop K (dict_get (req_file req) []) [] = Inr response"
    by (simp add: main_def)
  from main_loop_members [OF this g] obtain pf
    where pf: "pf \<in> set (dict_get (req_file req) [])" and body: "main_body K pf = Inr g"
    by auto
  from main_body_content [OF body] pf
  show "\<exists>pf parsed compiled header_template code_template header code.
          pf \<in> set (dict_get (req_file req) [])
        \<and> parse_proto K (dict_get (pf_content pf) '''') = Inr parsed
        \<and> compile_parsed K parsed False = Inr compiled
        \<and> get_template K ''standard_header.py.j2'' = Inr header_template
        \<and> get_template K ''standard_template.py.j2'' = Inr code_template
        \<and> header_template compiled = Inr header
        \<and> code_template compiled = Inr code
        \<and> out_content g = header @ [CHR 0x0A, CHR 0x0A] @ code"
    unfolding separator_def by blast
next
  fix fs'
  assume "generate_code K fs proto_file output_file include_imports po mo = (Inr (), fs')"
  then show "\<exists>proto_content parsed compiled header_template code_template header code.
          fs proto_file = Some proto_content
        \<and> parse_proto K proto_content = Inr parsed
        \<and> compile_parsed K parsed include_imports = Inr compiled
        \<and> get_template K ''standard_header.py.j2'' = Inr header_template
        \<and> get_template K ''standard_template.py.j2'' = Inr code_template
        \<and> header_template compiled = Inr header
        \<and> code_template compiled = Inr code
        \<and> fs' = fs(output_file \<mapsto> header @ [CHR 0x0A, CHR 0x0A] @ code)"
    by (auto simp: generate_code_def separator_def split: option.splits sum.splits)
qed

theorem main_one_output_per_named_file_witness:
  "main \<lparr>parse_proto = Inr, compile_parsed = (\<lambda>parsed include_imports. Inr parsed),
          get_template = (\<lambda>name. Inr (\<lambda>compiled. Inr (name @ compiled)))\<rparr>
        \<lparr>req_file = Some [\<lparr>pf_name = Some ''a.proto'', pf_content = Some ''A''\<rparr>,
                          \<lparr>pf_name = Some ''dir/b.proto'', pf_content = None\<rparr>]\<rparr> =
     Inr [\<lparr>out_name = ''a_pb.py'',
           out_content = ''standard_header.py.j2A'' @ separator @ ''standard_template.py.j2A''\<rparr>,
          \<lparr>out_name = ''dir/b_pb.py'',
           out_content = ''standard_header.py.j2'' @ separator @ ''standard_template.py.j2''\<rparr>]
   \<and> map out_name
       [\<lparr>out_name = ''a_pb.py'',
         out_content = ''standard_header.py.j2A'' @ separator @ ''standard_template.py.j2A''\<rparr>,
        \<lparr>out_name = ''dir/b_pb.py'',
         out_content = ''standard_header.py.j2'' @ separator @ ''standard_template.py.j2''\<rparr>] =
     map (\<lambda>pf. str_replace ''.proto'' ''_pb.py'' (dict_get (pf_name pf) ''''))
       [\<lparr>pf_name = Some ''a.proto'', pf_content = Some ''A''\<rparr>,
        \<lparr>pf_name = Some ''dir/b.proto'', pf_content = None\<rparr>]"
proof -
  let ?K = "\<lparr>parse_proto = Inr, compile_parsed = (\<lambda>parsed include_imports. Inr parsed),
             get_template = (\<lambda>name. Inr (\<lambda>compiled. Inr (name @ compiled)))\<rparr>
            :: (string, string) collaborators"
  let ?files = "[\<lparr>pf_name = Some ''a.proto'', pf_content = Some ''A''\<rparr>,
                 \<lparr>pf_name = Some ''dir/b.proto'', pf_content = None\<rparr>]"
  let ?req = "\<lparr>req_file = Some ?files\<rparr>"
  let ?response = "[\<lparr>out_name = ''a_pb.py'',
           out_content = ''standard_header.py.j2A'' @ separator @ ''standard_template.py.j2A''\<rparr>,
          \<lparr>out_name = ''dir/b_pb.py'',
           out_content = ''standard_header.py.j2'' @ separator @ ''standard_template.py.j2''\<rparr>]"
  have files: "req_file ?req = Some ?files" by simp
  have named: "\<forall>pf \<in> set ?files. \<exists>n. pf_name pf = Some n \<and> n \<noteq> []" by simp
  have run: "main ?K ?req = Inr ?response"
    by (simp add: main_def main_body_def dict_get_def)
  note all = main_one_output_per_named_file
    [OF files named, of ?K, THEN conjunct1, THEN spec, THEN mp, OF run]
  from all have names: "map out_name ?response =
          map (\<lambda>pf. str_replace ''.proto'' ''_pb.py'' (dict_get (pf_name pf) '''')) ?files"
    by (elim conjE)
  from run names show ?thesis by (rule conjI)
qed

theorem output_is_header_separator_code_witness:
  "main \<lparr>parse_proto = Inr, compile_parsed = (\<lambda>parsed include_imports. Inr parsed),
          get_template = (\<lambda>name. Inr (\<lambda>compiled. Inr (name @ compiled)))\<rparr>
        \<lparr>req_file = Some [\<lparr>pf_name = Some ''a.proto'', pf_content = Some ''A''\<rparr>]\<rparr> =
     Inr [\<lparr>out_name = ''a_pb.py'',
           out_content =
             ''standard_header.py.j2A'' @ [CHR 0x0A, CHR 0x0A] @ ''standard_template.py.j2A''\<rparr>]
   \<and> generate_code
        \<lparr>parse_proto = Inr, compile_parsed = (\<lambda>parsed include_imports. Inr parsed),
          get_template = (\<lambda>name. Inr (\<lambda>compiled. Inr (name @ compiled)))\<rparr>
        [''a.proto'' \<mapsto> ''A''] ''a.proto'' ''a_pb.py'' False None None =
     (Inr (), [''a.proto'' \<mapsto> ''A'',
               ''a_pb.py'' \<mapsto>
                 ''standard_header.py.j2A'' @ [CHR 0x0A, CHR 0x0A] @ ''standard_template.py.j2A''])"
proof -
  let ?K = "\<lparr>parse_proto = Inr, compile_parsed = (\<lambda>parsed include_imports. Inr parsed),
             get_template = (\<lambda>name. Inr (\<lambda>compiled. Inr (name @ compiled)))\<rparr>
            :: (string, string) collaborators"
  let ?req = "\<lparr>req_file = Some [\<lparr>pf_name = Some ''a.proto'', pf_content = Some ''A''\<rparr>]\<rparr>"
  let ?g = "\<lparr>out_name = ''a_pb.py'',
             out_content =
               ''standard_header.py.j2A'' @ [CHR 0x0A, CHR 0x0A] @ ''standard_template.py.j2A''\<rparr>"
  let ?fs = "[''a.proto'' \<mapsto> ''A'']"
  let ?fs' = "[''a.proto'' \<mapsto> ''A'',
               ''a_pb.py'' \<mapsto>
                 ''standard_header.py.j2A'' @ [CHR 0x0A, CHR 0x0A] @ ''standard_template.py.j2A'']"
  have run: "main ?K ?req = Inr [?g]"
    by (simp add: main_def main_body_def dict_get_def separator_def)
  have gen: "generate_code ?K ?fs ''a.proto'' ''a_pb.py'' False None None = (Inr (), ?fs')"
    by (simp add: generate_code_def separator_def)
  have mem: "?g \<in> set [?g]" by simp
  note part = output_is_header_separator_code
    [of ?K ?req ?fs "''a.proto''" "''a_pb.py''" False None None,
     THEN conjunct1, THEN spec, THEN spec, THEN mp, OF run, THEN mp, OF mem]
  from part obtain header code
    where "out_content ?g = header @ [CHR 0x0A, CHR 0x0A] @ code"
    by (elim exE conjE)
  from run gen show ?thesis by (rule conjI)
qed
end
